theory Spec2Isabelle
  imports Main "HOL-Library.Word"
begin

unbundle bit_operations_syntax

section \<open>Go values used by eval/exception.go\<close>

text \<open>
  The file under verification is \<^verbatim>\<open>src/eval/exception.go\<close>. Go's \<^verbatim>\<open>int\<close> and
  \<^verbatim>\<open>uint\<close> are 64 bits wide on the supported platforms and are modelled as
  \<open>64 word\<close>; \<^verbatim>\<open>int\<close> is read through \<open>sint\<close>, \<^verbatim>\<open>uint\<close> through \<open>unat\<close>.
  \<^verbatim>\<open>syscall.WaitStatus\<close> is \<^verbatim>\<open>uint32\<close>, a \<open>32 word\<close>. Go strings are byte
  sequences, as \<open>string\<close> is.
\<close>

type_synonym go_int = "64 word"
type_synonym go_uint = "64 word"
type_synonym WaitStatus = "32 word"

text \<open>
  A call either returns a value or crashes the goroutine. \<open>NilDereference\<close> is the
  run-time panic of reading a field through a nil pointer or calling a method of a nil
  interface. \<open>NegativeRepeatCount\<close> and \<open>RepeatOverflow\<close> are the two panics that
  \<^verbatim>\<open>strings.Repeat\<close> raises itself, on a negative count and on an output length beyond
  the largest \<^verbatim>\<open>int\<close>. \<open>AllocationFailure\<close> is the failure of \<^verbatim>\<open>make\<close> to obtain the
  bytes asked for (the panic \<^verbatim>\<open>makeslice: len out of range\<close> or the fatal out-of-memory
  error). \<open>StackOverflow\<close> is the fatal error that ends a recursion which never returns.
\<close>

datatype crash =
  NilDereference | NegativeRepeatCount | RepeatOverflow | AllocationFailure | StackOverflow

text \<open>Sequencing: the first crash ends the computation.\<close>

definition andThen :: "crash + 'a \<Rightarrow> ('a \<Rightarrow> crash + 'b) \<Rightarrow> crash + 'b" where
  "andThen r k = (case r of Inl c \<Rightarrow> Inl c | Inr v \<Rightarrow> k v)"

text \<open>A recursion that does not return (\<open>None\<close>) is the stack overflow.\<close>

definition returning :: "'a option \<Rightarrow> crash + 'a" where
  "returning r = (case r of None \<Rightarrow> Inl StackOverflow | Some v \<Rightarrow> Inr v)"

subsection \<open>Decimal rendering (\<^verbatim>\<open>strconv.Itoa\<close>, the verbs \<^verbatim>\<open>%d\<close> and \<^verbatim>\<open>%v\<close> on integers)\<close>

definition digit_char :: "nat \<Rightarrow> char" where
  "digit_char d = ''0123456789'' ! d"

fun decimal :: "nat \<Rightarrow> string" where
  "decimal n = (if n < 10 then [digit_char n] else decimal (n div 10) @ [digit_char (n mod 10)])"

declare decimal.simps [simp del]

definition Itoa :: "go_int \<Rightarrow> string" where
  "Itoa i = (if i <s 0 then ''-'' @ decimal (nat (- sint i)) else decimal (nat (sint i)))"

subsection \<open>\<^verbatim>\<open>syscall.WaitStatus\<close>\<close>

text \<open>
  \<^verbatim>\<open>syscall.WaitStatus\<close> and its methods belong to the Go standard library, not to this
  repository. They are written here as \<^verbatim>\<open>syscall_linux.go\<close> defines them: the low seven
  bits are 0 (exited), 0x7F (stopped) or the terminating signal, bit 0x80 is the core dump
  flag, and the exit code or the stopping signal sits above bit 8.
\<close>

definition ws_mask :: WaitStatus where "ws_mask = 0x7F"
definition ws_core :: WaitStatus where "ws_core = 0x80"
definition ws_exited :: WaitStatus where "ws_exited = 0x00"
definition ws_stopped :: WaitStatus where "ws_stopped = 0x7F"
definition ws_shift :: nat where "ws_shift = 8"
definition SIGTRAP :: go_int where "SIGTRAP = 5"

definition Exited :: "WaitStatus \<Rightarrow> bool" where
  "Exited w \<longleftrightarrow> w AND ws_mask = ws_exited"

definition Signaled :: "WaitStatus \<Rightarrow> bool" where
  "Signaled w \<longleftrightarrow> w AND ws_mask \<noteq> ws_stopped \<and> w AND ws_mask \<noteq> ws_exited"

definition Stopped :: "WaitStatus \<Rightarrow> bool" where
  "Stopped w \<longleftrightarrow> w AND 0xFF = ws_stopped"

definition CoreDump :: "WaitStatus \<Rightarrow> bool" where
  "CoreDump w \<longleftrightarrow> Signaled w \<and> w AND ws_core \<noteq> 0"

definition ExitStatus :: "WaitStatus \<Rightarrow> go_int" where
  "ExitStatus w = (if \<not> Exited w then - 1 else ucast (drop_bit ws_shift w) AND 0xFF)"

definition Signal :: "WaitStatus \<Rightarrow> go_int" where
  "Signal w = (if \<not> Signaled w then - 1 else ucast (w AND ws_mask))"

definition StopSignal :: "WaitStatus \<Rightarrow> go_int" where
  "StopSignal w = (if \<not> Stopped w then - 1 else ucast (drop_bit ws_shift w) AND 0xFF)"

definition TrapCause :: "WaitStatus \<Rightarrow> go_int" where
  "TrapCause w =
     (if StopSignal w \<noteq> SIGTRAP then - 1
      else signed_drop_bit 8 (ucast (drop_bit ws_shift w)))"

subsection \<open>Collaborators outside the file\<close>

text \<open>
  \<^verbatim>\<open>parse.Quote\<close> (the language's string quoting) lives in another package of the
  repository, and \<^verbatim>\<open>syscall.Signal.String\<close> reads a platform table of signal names.
  \<open>Alloc_Limit\<close> is the largest number of bytes that \<^verbatim>\<open>make([]byte, n)\<close> obtains in
  the run at hand; it depends on the Go version and on the memory of the machine. All
  three are parameters of the model: every theorem holds for any choice of them.
\<close>

record externals =
  Quote :: "string \<Rightarrow> string"
  Signal_String :: "go_int \<Rightarrow> string"
  Alloc_Limit :: nat

section \<open>ExternalCmdExit\<close>

record ExternalCmdExit =
  WaitStatus :: WaitStatus
  CmdName :: string
  Pid :: go_int

text \<open>
  \<^verbatim>\<open>NewExternalCmdExit\<close> returns the interface \<^verbatim>\<open>error\<close>: \<open>None\<close> is the nil
  interface, \<open>Some x\<close> the interface holding the struct \<open>x\<close>.
\<close>

definition NewExternalCmdExit :: "string \<Rightarrow> WaitStatus \<Rightarrow> go_int \<Rightarrow> ExternalCmdExit option" where
  "NewExternalCmdExit name ws pid =
     (if Exited ws \<and> ExitStatus ws = 0 then None
      else let pid' = (if \<not> Stopped ws then 0 else pid)
           in Some \<lparr>WaitStatus = ws, CmdName = name, Pid = pid'\<rparr>)"

text \<open>
  \<^verbatim>\<open>exit<<8 + int(sig)\<close> is computed on 64-bit \<^verbatim>\<open>int\<close>; the conversion to
  \<^verbatim>\<open>syscall.WaitStatus\<close> keeps the low 32 bits.
\<close>

definition FakeExternalCmdExit :: "string \<Rightarrow> go_int \<Rightarrow> go_int \<Rightarrow> ExternalCmdExit" where
  "FakeExternalCmdExit name exit sig =
     \<lparr>WaitStatus = ucast (push_bit 8 exit + sig), CmdName = name, Pid = 0\<rparr>"

text \<open>
  \<^verbatim>\<open>ExternalCmdExit.Error\<close>. The verb \<^verbatim>\<open>%s\<close> on a \<^verbatim>\<open>syscall.Signal\<close> calls its
  \<^verbatim>\<open>String\<close> method, \<^verbatim>\<open>%d\<close> and \<^verbatim>\<open>%v\<close> on an \<^verbatim>\<open>int\<close> print it in decimal, and
  \<^verbatim>\<open>fmt.Sprint\<close> prints a \<^verbatim>\<open>WaitStatus\<close> as an unsigned decimal with no space after
  a string operand.
\<close>

definition ExternalCmdExit_Error :: "externals \<Rightarrow> ExternalCmdExit \<Rightarrow> string" where
  "ExternalCmdExit_Error E exit =
     (let ws = WaitStatus exit;
          quotedName = Quote E (CmdName exit)
      in if Exited ws then quotedName @ '' exited with '' @ Itoa (ExitStatus ws)
         else if Signaled ws then
           (let msg = quotedName @ '' killed by signal '' @ Signal_String E (Signal ws)
            in if CoreDump ws then msg @ '' (core dumped)'' else msg)
         else if Stopped ws then
           (let msg = quotedName @ '' stopped by signal ''
                        @ (Signal_String E (StopSignal ws) @ '' (pid='' @ Itoa (Pid exit) @ '')'');
                trap = TrapCause ws
            in if trap \<noteq> - 1 then msg @ ('' (trapped '' @ Itoa trap @ '')'') else msg)
         else quotedName @ '' has unknown WaitStatus '' @ decimal (unat ws))"

section \<open>Flow\<close>

text \<open>
  \<^verbatim>\<open>type Flow uint\<close> with the constants \<^verbatim>\<open>Return\<close>, \<^verbatim>\<open>Break\<close>, \<^verbatim>\<open>Continue\<close>
  (0, 1, 2) and the table \<^verbatim>\<open>flowNames\<close>.
\<close>

type_synonym Flow = go_uint

definition Return :: Flow where "Return = 0"
definition Break :: Flow where "Break = 1"
definition Continue :: Flow where "Continue = 2"

definition flowNames :: "string list" where
  "flowNames = [''return'', ''break'', ''continue'']"

text \<open>
  \<^verbatim>\<open>Flow.Error\<close>. \<^verbatim>\<open>Flow\<close> has the method \<^verbatim>\<open>Error() string\<close>, so it implements
  \<^verbatim>\<open>error\<close>, and \<^verbatim>\<open>fmt\<close> formats an operand that implements \<^verbatim>\<open>error\<close> under the
  verb \<^verbatim>\<open>%v\<close> by calling its \<^verbatim>\<open>Error\<close> method. The out-of-range branch
  \<^verbatim>\<open>fmt.Sprintf("!(BAD FLOW: %v)", f)\<close> therefore calls \<^verbatim>\<open>f.Error()\<close> again, on
  the same \<open>f\<close>. The function is defined as a partial function: \<open>None\<close> means that the
  call does not return.
\<close>

partial_function (option) Flow_Error :: "Flow \<Rightarrow> string option" where
  "Flow_Error f =
     (if f \<ge> of_nat (length flowNames)
      then Option.bind (Flow_Error f) (\<lambda>s. Some (''!(BAD FLOW: '' @ s @ '')''))
      else Some (flowNames ! unat f))"

definition Flow_Repr :: "Flow \<Rightarrow> go_int \<Rightarrow> string option" where
  "Flow_Repr f indent = Option.bind (Flow_Error f) (\<lambda>s. Some (''?('' @ s @ '')''))"

definition Flow_Pprint :: "Flow \<Rightarrow> string option" where
  "Flow_Pprint f =
     Option.bind (Flow_Error f) (\<lambda>s. Some ([CHR 0x1B] @ ''[33;1m'' @ s @ [CHR 0x1B] @ ''[m''))"

section \<open>Exception and PipelineError\<close>

text \<open>
  The field \<^verbatim>\<open>Cause\<close> has the interface type \<^verbatim>\<open>error\<close>: \<open>None\<close> is the nil interface.
  The dynamic types of a cause are the three error types of the file and, as \<open>COther\<close>,
  an error of any other package: its message, its \<^verbatim>\<open>Repr\<close> method if it has one and
  the value of its \<^verbatim>\<open>Pprint\<close> method if it has one (these foreign methods are taken
  to return). \<^verbatim>\<open>PipelineError\<close> is a struct with the single
  field \<^verbatim>\<open>Errors []*Exception\<close>; \<open>CPipelineError es\<close> holds that slice. A pointer
  \<^verbatim>\<open>*Exception\<close> is an \<open>Exception option\<close>, \<open>None\<close> the nil pointer. The traceback is
  the chain of \<^verbatim>\<open>util.SourceContext\<close> frames linked by \<^verbatim>\<open>Next\<close>, as a list of frames
  of a type \<open>'tb\<close> left open.
\<close>

datatype 'tb cause =
    CFlow Flow
  | CExit ExternalCmdExit
  | CPipelineError "'tb Exception option list"
  | COther string "(go_int \<Rightarrow> string) option" "string option"
and 'tb Exception = Exception (Cause: "'tb cause option") (Traceback: "'tb list")

definition OK :: "'tb Exception option" where
  "OK = Some (Exception None [])"

definition Exception_Bool :: "'tb Exception option \<Rightarrow> crash + bool" where
  "Exception_Bool exc = (case exc of None \<Rightarrow> Inl NilDereference | Some x \<Rightarrow> Inr (Cause x = None))"

text \<open>
  \<^verbatim>\<open>Exception.Error\<close>, the method \<^verbatim>\<open>Error\<close> of a cause by its dynamic type, and
  \<^verbatim>\<open>PipelineError.Error\<close> with its loop over the slots: \<open>i\<close> is the index and \<open>b\<close>
  the buffer written so far.
\<close>

fun cause_Error :: "externals \<Rightarrow> 'tb cause \<Rightarrow> crash + string"
and Exception_Error :: "externals \<Rightarrow> 'tb Exception option \<Rightarrow> crash + string"
and PipelineError_Error :: "externals \<Rightarrow> 'tb Exception option list \<Rightarrow> crash + string"
and PipelineError_Error_loop ::
      "externals \<Rightarrow> nat \<Rightarrow> string \<Rightarrow> 'tb Exception option list \<Rightarrow> crash + string"
where
  "cause_Error E (CFlow f) = returning (Flow_Error f)"
| "cause_Error E (CExit x) = Inr (ExternalCmdExit_Error E x)"
| "cause_Error E (CPipelineError es) = PipelineError_Error E es"
| "cause_Error E (COther m r p) = Inr m"
| "Exception_Error E None = Inl NilDereference"
| "Exception_Error E (Some (Exception None tb)) = Inl NilDereference"
| "Exception_Error E (Some (Exception (Some c) tb)) = cause_Error E c"
| "PipelineError_Error E es =
     andThen (PipelineError_Error_loop E 0 ''('' es) (\<lambda>b. Inr (b @ '')''))"
| "PipelineError_Error_loop E i b [] = Inr b"
| "PipelineError_Error_loop E i b (e # es) =
     (let b1 = (if i > 0 then b @ '' | '' else b)
      in if (case e of None \<Rightarrow> True | Some x \<Rightarrow> Cause x = None)
         then PipelineError_Error_loop E (i + 1) (b1 @ ''<nil>'') es
         else andThen (Exception_Error E e)
                (\<lambda>s. PipelineError_Error_loop E (i + 1) (b1 @ s) es))"

text \<open>
  \<^verbatim>\<open>strings.Repeat\<close>, of the Go standard library: it panics on a negative count and on
  an output length \<^verbatim>\<open>len(s) * count\<close> that overflows \<^verbatim>\<open>int\<close>, and then allocates
  the output with \<^verbatim>\<open>make\<close>, which fails beyond what can be allocated.
\<close>

definition strings_Repeat :: "externals \<Rightarrow> string \<Rightarrow> go_int \<Rightarrow> crash + string" where
  "strings_Repeat E s count =
     (if count <s 0 then Inl NegativeRepeatCount
      else let n = length s * nat (sint count)
           in if 2 ^ 63 \<le> n then Inl RepeatOverflow
              else if Alloc_Limit E < n then Inl AllocationFailure
              else Inr (concat (replicate (nat (sint count)) s)))"

text \<open>
  \<^verbatim>\<open>Exception.Repr\<close> and \<^verbatim>\<open>PipelineError.Repr\<close>. \<open>cause_Repr\<close> is the type assertion
  \<^verbatim>\<open>exc.Cause.(Reprer)\<close> followed by the call of \<^verbatim>\<open>Repr\<close>: \<open>None\<close> when the dynamic
  type of the cause has no \<^verbatim>\<open>Repr\<close> method (\<^verbatim>\<open>ExternalCmdExit\<close> has none), otherwise
  the outcome of the call.
\<close>

fun cause_Repr :: "externals \<Rightarrow> 'tb cause \<Rightarrow> go_int \<Rightarrow> (crash + string) option"
and Exception_Repr :: "externals \<Rightarrow> 'tb Exception option \<Rightarrow> go_int \<Rightarrow> crash + string"
and PipelineError_Repr :: "externals \<Rightarrow> 'tb Exception option list \<Rightarrow> go_int \<Rightarrow> crash + string"
and PipelineError_Repr_loop ::
      "externals \<Rightarrow> go_int \<Rightarrow> go_int \<Rightarrow> string \<Rightarrow> 'tb Exception option list \<Rightarrow> crash + string"
where
  "cause_Repr E (CFlow f) indent = Some (returning (Flow_Repr f indent))"
| "cause_Repr E (CExit x) indent = None"
| "cause_Repr E (CPipelineError es) indent = Some (PipelineError_Repr E es indent)"
| "cause_Repr E (COther m r p) indent =
     (case r of None \<Rightarrow> None | Some repr \<Rightarrow> Some (Inr (repr indent)))"
| "Exception_Repr E None indent = Inl NilDereference"
| "Exception_Repr E (Some (Exception None tb)) indent = Inr ''$ok''"
| "Exception_Repr E (Some (Exception (Some c) tb)) indent =
     (case cause_Repr E c indent of
        Some r \<Rightarrow> r
      | None \<Rightarrow> andThen (cause_Error E c) (\<lambda>s. Inr (''?(error '' @ Quote E s @ '')'')))"
| "PipelineError_Repr E es indent =
     (let b = ''?(multi-error'';
          elemIndent = indent + of_nat (length ''?(multi-error '')
      in andThen (PipelineError_Repr_loop E indent elemIndent b es) (\<lambda>b. Inr (b @ '')'')))"
| "PipelineError_Repr_loop E indent elemIndent b [] = Inr b"
| "PipelineError_Repr_loop E indent elemIndent b (e # es) =
     andThen (if 0 <s indent
              then andThen (strings_Repeat E '' '' elemIndent) (\<lambda>sp. Inr (b @ [CHR 0x0A] @ sp))
              else Inr (b @ '' ''))
       (\<lambda>b1. andThen (Exception_Repr E e elemIndent)
                (\<lambda>s. PipelineError_Repr_loop E indent elemIndent (b1 @ s) es))"

text \<open>
  \<^verbatim>\<open>Exception.Pprint\<close>. \<open>cause_Pprint\<close> is the type assertion
  \<^verbatim>\<open>exc.Cause.(util.Pprinter)\<close> followed by the call: of the error types of the file only
  \<^verbatim>\<open>Flow\<close> has a \<^verbatim>\<open>Pprint\<close> method, and the assertion fails on the nil interface.
  \<open>P frame indent\<close> is the text that \<^verbatim>\<open>util.SourceContext.Pprint\<close> writes for a frame.
\<close>

definition cause_Pprint :: "'tb cause option \<Rightarrow> (crash + string) option" where
  "cause_Pprint c =
     (case c of
        None \<Rightarrow> None
      | Some (CFlow f) \<Rightarrow> Some (returning (Flow_Pprint f))
      | Some (CExit x) \<Rightarrow> None
      | Some (CPipelineError es) \<Rightarrow> None
      | Some (COther m r p) \<Rightarrow> (case p of None \<Rightarrow> None | Some s \<Rightarrow> Some (Inr s)))"

fun Traceback_loop :: "('tb \<Rightarrow> string \<Rightarrow> string) \<Rightarrow> string \<Rightarrow> 'tb list \<Rightarrow> string" where
  "Traceback_loop P buf [] = buf"
| "Traceback_loop P buf (tb # next) =
     Traceback_loop P (buf @ [CHR 0x0A] @ ''  '' @ P tb ''    '') next"

definition Exception_Pprint ::
  "externals \<Rightarrow> ('tb \<Rightarrow> string \<Rightarrow> string) \<Rightarrow> 'tb Exception option \<Rightarrow> crash + string" where
  "Exception_Pprint E P exc =
     (case exc of
        None \<Rightarrow> Inl NilDereference
      | Some x \<Rightarrow>
          andThen
            (case cause_Pprint (Cause x) of
               Some r \<Rightarrow> r
             | None \<Rightarrow>
                 andThen (case Cause x of None \<Rightarrow> Inl NilDereference | Some c \<Rightarrow> cause_Error E c)
                   (\<lambda>s. Inr ([CHR 0x1B] @ ''[31;1m'' @ s @ [CHR 0x1B] @ ''[m'')))
            (\<lambda>msg. Inr (Traceback_loop P
                          ((''Exception: '' @ msg @ [CHR 0x0A]) @ ''Traceback:'') (Traceback x))))"

section \<open>allok\<close>

fun allok :: "'tb Exception option list \<Rightarrow> bool" where
  "allok [] = True"
| "allok (e # es) =
     (if (case e of None \<Rightarrow> False | Some x \<Rightarrow> Cause x \<noteq> None) then False else allok es)"

section \<open>The rendering of a pipeline, as the specification words it\<close>

text \<open>
  These three definitions follow the specification, not the code: a slot renders as
  \<^verbatim>\<open><nil>\<close> if it is nil or has a nil cause and as the stage's own \<^verbatim>\<open>Error()\<close>
  message otherwise; the messages are taken in index order, the first crash ending the
  rendering; and they are joined by a separator. They are compared with
  \<open>PipelineError_Error\<close> below.
\<close>

fun slot_message :: "externals \<Rightarrow> 'tb Exception option \<Rightarrow> crash + string" where
  "slot_message E None = Inr ''<nil>''"
| "slot_message E (Some x) =
     (if Cause x = None then Inr ''<nil>'' else Exception_Error E (Some x))"

fun collect :: "(crash + 'a) list \<Rightarrow> crash + 'a list" where
  "collect [] = Inr []"
| "collect (r # rs) = andThen r (\<lambda>v. andThen (collect rs) (\<lambda>vs. Inr (v # vs)))"

fun join :: "string \<Rightarrow> string list \<Rightarrow> string" where
  "join sep [] = []"
| "join sep [s] = s"
| "join sep (s # t # ss) = s @ sep @ join sep (t # ss)"

section \<open>Facts about the model\<close>

subsection \<open>Flow.Error returns exactly on the three named constants\<close>

lemma Flow_Error_Some_lt:
  assumes "Flow_Error f = Some s"
  shows "f < 3"
proof (rule Flow_Error.raw_induct [where P = "\<lambda>f s. f < 3", OF _ assms])
  fix g :: "Flow \<Rightarrow> string option" and x y
  assume IH: "\<And>x y. g x = Some y \<Longrightarrow> x < 3"
    and step: "(if of_nat (length flowNames) \<le> x
          then Option.bind (g x) (\<lambda>s. Some (''!(BAD FLOW: '' @ s @ '')''))
          else Some (flowNames ! unat x)) = Some y"
  show "x < 3"
  proof (cases "of_nat (length flowNames) \<le> x")
    case True
    with step obtain s where "g x = Some s"
      by (auto split: Option.bind_splits)
    then show ?thesis by (rule IH)
  next
    case False
    then show ?thesis by (simp add: flowNames_def not_le)
  qed
qed

lemma Flow_Error_eq: "Flow_Error f = (if f < 3 then Some (flowNames ! unat f) else None)"
proof (cases "f < 3")
  case True
  then have "\<not> 3 \<le> f" by (simp add: not_le)
  then show ?thesis using True by (subst Flow_Error.simps) (simp add: flowNames_def)
next
  case False
  have "Flow_Error f = None"
  proof (cases "Flow_Error f")
    case (Some s)
    with Flow_Error_Some_lt False show ?thesis by blast
  qed simp
  with False show ?thesis by simp
qed

subsection \<open>Exception.Bool\<close>

text \<open>
  Claim C1. For every Exception, \<^verbatim>\<open>Bool()\<close> returns true if and only if its cause is nil:
  \<^verbatim>\<open>OK.Bool()\<close> is true, and an Exception built from a non-nil cause has \<^verbatim>\<open>Bool()\<close>
  false.
\<close>

theorem Exception_Bool_iff_nil_cause:
  "Exception_Bool (Some x) = Inr (Cause x = None)
   \<and> Exception_Bool (OK :: 'tb Exception option) = Inr True
   \<and> Exception_Bool (Some (Exception (Some c) tb)) = Inr False"
  by (simp add: Exception_Bool_def OK_def)

subsection \<open>NewExternalCmdExit\<close>

text \<open>
  Claim C2. \<^verbatim>\<open>NewExternalCmdExit(name, ws, pid)\<close> returns nil if and only if the wait
  status is a normal termination with exit code 0. Every other status gives a failure
  value that carries the status and the name, with the pid kept when the process was
  stopped and zeroed otherwise.
\<close>

theorem NewExternalCmdExit_nil_iff_zero_exit:
  "(NewExternalCmdExit name ws pid = None \<longleftrightarrow> Exited ws \<and> ExitStatus ws = 0)
   \<and> (\<forall>x. NewExternalCmdExit name ws pid = Some x \<longrightarrow>
          WaitStatus x = ws \<and> CmdName x = name
          \<and> (Stopped ws \<longrightarrow> Pid x = pid) \<and> (\<not> Stopped ws \<longrightarrow> Pid x = 0))"
  by (auto simp: NewExternalCmdExit_def Let_def)

theorem NewExternalCmdExit_nil_iff_zero_exit_witness:
  "NewExternalCmdExit ''ls'' 0 42 = None
   \<and> (\<exists>x. NewExternalCmdExit ''sleep'' 0x137F 42 = Some x \<and> Stopped 0x137F \<and> Pid x = 42)
   \<and> (\<exists>x. NewExternalCmdExit ''ls'' 0x0200 42 = Some x \<and> \<not> Stopped 0x0200 \<and> Pid x = 0)"
proof -
  have e0: "Exited 0 \<and> ExitStatus 0 = 0"
    by (simp add: Exited_def ExitStatus_def ws_exited_def ws_shift_def)
  have s1: "Stopped 0x137F" "\<not> Exited 0x137F"
    by (simp_all add: Stopped_def Exited_def ws_mask_def ws_stopped_def ws_exited_def)
  have s2: "\<not> Stopped 0x0200" "ExitStatus 0x0200 \<noteq> 0"
    by (simp_all add: Stopped_def Exited_def ExitStatus_def ws_mask_def ws_stopped_def
        ws_exited_def ws_shift_def)
  have "NewExternalCmdExit ''ls'' 0 42 = None"
    using NewExternalCmdExit_nil_iff_zero_exit [of "''ls''" 0 42] e0 by blast
  moreover have "\<exists>x. NewExternalCmdExit ''sleep'' 0x137F 42 = Some x \<and> Stopped 0x137F \<and> Pid x = 42"
    using NewExternalCmdExit_nil_iff_zero_exit [of "''sleep''" "0x137F" 42] s1
    by (cases "NewExternalCmdExit ''sleep'' 0x137F 42") blast+
  moreover have "\<exists>x. NewExternalCmdExit ''ls'' 0x0200 42 = Some x \<and> \<not> Stopped 0x0200 \<and> Pid x = 0"
    using NewExternalCmdExit_nil_iff_zero_exit [of "''ls''" "0x0200" 42] s2
    by (cases "NewExternalCmdExit ''ls'' 0x0200 42") blast+
  ultimately show ?thesis by blast
qed

subsection \<open>The classes of a wait status\<close>

lemma stopped_mask: "Stopped w \<Longrightarrow> w AND ws_mask = ws_stopped"
proof -
  assume "Stopped w"
  then have "w AND 0xFF = 0x7F" by (simp add: Stopped_def ws_stopped_def)
  then have "(w AND 0xFF) AND 0x7F = 0x7F AND 0x7F" by simp
  then show ?thesis by (simp add: and.assoc ws_mask_def ws_stopped_def)
qed

lemma Stopped_not_Exited: "Stopped w \<Longrightarrow> \<not> Exited w"
  using stopped_mask [of w] by (auto simp: Exited_def ws_stopped_def ws_exited_def)

lemma Stopped_not_Signaled: "Stopped w \<Longrightarrow> \<not> Signaled w"
  using stopped_mask [of w] by (auto simp: Signaled_def)

lemma Signaled_not_Exited: "Signaled w \<Longrightarrow> \<not> Exited w"
  by (auto simp: Signaled_def Exited_def)

lemma shifted_not_minus_one: "signed_drop_bit 8 (ucast (u :: 32 word) :: 64 word) \<noteq> - 1"
proof
  assume "signed_drop_bit 8 (ucast u :: 64 word) = - 1"
  then have "bit (signed_drop_bit 8 (ucast u :: 64 word)) 63 = bit (- 1 :: 64 word) 63"
    by simp
  then show False by (auto simp add: bit_simps dest: bit_imp_le_length)
qed

lemma TrapCause_present_iff: "TrapCause w \<noteq> - 1 \<longleftrightarrow> StopSignal w = SIGTRAP"
  by (simp add: TrapCause_def shifted_not_minus_one)

subsection \<open>ExternalCmdExit.Error\<close>

text \<open>
  Claim C7. The message of an \<^verbatim>\<open>ExternalCmdExit\<close>: a normal exit gives
  "<quoted cmd> exited with <code>"; a signal-terminated status gives
  "<quoted cmd> killed by signal <signal-name>", followed by " (core dumped)" if and only
  if a core dump occurred; a stopped status gives
  "<quoted cmd> stopped by signal <signal-name> (pid=<pid>)", followed by
  " (trapped <cause>)" if and only if a trap cause is present (\<^verbatim>\<open>TrapCause\<close> is not -1,
  which is the case exactly when the stopping signal is \<^verbatim>\<open>SIGTRAP\<close>); any other status
  gives "<quoted cmd> has unknown WaitStatus <raw status>". The function is total: it
  returns a message on every status.
\<close>

theorem ExternalCmdExit_Error_cases:
  "(Exited (WaitStatus x) \<longrightarrow>
      ExternalCmdExit_Error E x
        = Quote E (CmdName x) @ '' exited with '' @ Itoa (ExitStatus (WaitStatus x)))
   \<and> (Signaled (WaitStatus x) \<longrightarrow>
      ExternalCmdExit_Error E x
        = Quote E (CmdName x) @ '' killed by signal '' @ Signal_String E (Signal (WaitStatus x))
            @ (if CoreDump (WaitStatus x) then '' (core dumped)'' else []))
   \<and> (Stopped (WaitStatus x) \<longrightarrow>
      ExternalCmdExit_Error E x
        = Quote E (CmdName x) @ '' stopped by signal ''
            @ Signal_String E (StopSignal (WaitStatus x)) @ '' (pid='' @ Itoa (Pid x) @ '')''
            @ (if TrapCause (WaitStatus x) \<noteq> - 1
               then '' (trapped '' @ Itoa (TrapCause (WaitStatus x)) @ '')'' else [])
      \<and> (TrapCause (WaitStatus x) \<noteq> - 1 \<longleftrightarrow> StopSignal (WaitStatus x) = SIGTRAP))
   \<and> (\<not> Exited (WaitStatus x) \<and> \<not> Signaled (WaitStatus x) \<and> \<not> Stopped (WaitStatus x) \<longrightarrow>
      ExternalCmdExit_Error E x
        = Quote E (CmdName x) @ '' has unknown WaitStatus '' @ decimal (unat (WaitStatus x)))"
  using Stopped_not_Exited [of "WaitStatus x"] Stopped_not_Signaled [of "WaitStatus x"]
    Signaled_not_Exited [of "WaitStatus x"] TrapCause_present_iff [of "WaitStatus x"]
  by (auto simp: ExternalCmdExit_Error_def Let_def)

theorem ExternalCmdExit_Error_cases_witness:
  "ExternalCmdExit_Error \<lparr>Quote = (\<lambda>s. s), Signal_String = (\<lambda>n. ''signal '' @ Itoa n),
        Alloc_Limit = 2 ^ 30\<rparr>
      \<lparr>WaitStatus = 0x0200, CmdName = ''ls'', Pid = 0\<rparr> = ''ls exited with 2''
   \<and> ExternalCmdExit_Error \<lparr>Quote = (\<lambda>s. s), Signal_String = (\<lambda>n. ''signal '' @ Itoa n),
        Alloc_Limit = 2 ^ 30\<rparr>
      \<lparr>WaitStatus = 0x8B, CmdName = ''ls'', Pid = 0\<rparr>
        = ''ls killed by signal signal 11 (core dumped)''
   \<and> ExternalCmdExit_Error \<lparr>Quote = (\<lambda>s. s), Signal_String = (\<lambda>n. ''signal '' @ Itoa n),
        Alloc_Limit = 2 ^ 30\<rparr>
      \<lparr>WaitStatus = 0x0B, CmdName = ''ls'', Pid = 0\<rparr> = ''ls killed by signal signal 11''
   \<and> ExternalCmdExit_Error \<lparr>Quote = (\<lambda>s. s), Signal_String = (\<lambda>n. ''signal '' @ Itoa n),
        Alloc_Limit = 2 ^ 30\<rparr>
      \<lparr>WaitStatus = 0x3057F, CmdName = ''ls'', Pid = 77\<rparr>
        = ''ls stopped by signal signal 5 (pid=77) (trapped 3)''
   \<and> ExternalCmdExit_Error \<lparr>Quote = (\<lambda>s. s), Signal_String = (\<lambda>n. ''signal '' @ Itoa n),
        Alloc_Limit = 2 ^ 30\<rparr>
      \<lparr>WaitStatus = 0x137F, CmdName = ''ls'', Pid = 77\<rparr>
        = ''ls stopped by signal signal 19 (pid=77)''
   \<and> ExternalCmdExit_Error \<lparr>Quote = (\<lambda>s. s), Signal_String = (\<lambda>n. ''signal '' @ Itoa n),
        Alloc_Limit = 2 ^ 30\<rparr>
      \<lparr>WaitStatus = 0xFFFF, CmdName = ''ls'', Pid = 77\<rparr>
        = ''ls has unknown WaitStatus 65535''"
proof -
  let ?E = "\<lparr>Quote = (\<lambda>s. s), Signal_String = (\<lambda>n. ''signal '' @ Itoa n),
        Alloc_Limit = 2 ^ 30\<rparr>"
  note ev = Exited_def Signaled_def Stopped_def CoreDump_def ExitStatus_def Signal_def
    StopSignal_def TrapCause_def SIGTRAP_def ws_mask_def ws_core_def ws_exited_def
    ws_stopped_def ws_shift_def Itoa_def decimal.simps digit_char_def word_sless_alt
  have "ExternalCmdExit_Error ?E \<lparr>WaitStatus = 0x0200, CmdName = ''ls'', Pid = 0\<rparr>
      = ''ls exited with 2''"
    using ExternalCmdExit_Error_cases [of "\<lparr>WaitStatus = 0x0200, CmdName = ''ls'', Pid = 0\<rparr>" ?E]
    by (simp add: ev)
  moreover have "ExternalCmdExit_Error ?E \<lparr>WaitStatus = 0x8B, CmdName = ''ls'', Pid = 0\<rparr>
      = ''ls killed by signal signal 11 (core dumped)''"
    using ExternalCmdExit_Error_cases [of "\<lparr>WaitStatus = 0x8B, CmdName = ''ls'', Pid = 0\<rparr>" ?E]
    by (simp add: ev)
  moreover have "ExternalCmdExit_Error ?E \<lparr>WaitStatus = 0x0B, CmdName = ''ls'', Pid = 0\<rparr>
      = ''ls killed by signal signal 11''"
    using ExternalCmdExit_Error_cases [of "\<lparr>WaitStatus = 0x0B, CmdName = ''ls'', Pid = 0\<rparr>" ?E]
    by (simp add: ev)
  moreover have "ExternalCmdExit_Error ?E \<lparr>WaitStatus = 0x3057F, CmdName = ''ls'', Pid = 77\<rparr>
      = ''ls stopped by signal signal 5 (pid=77) (trapped 3)''"
    using ExternalCmdExit_Error_cases [of "\<lparr>WaitStatus = 0x3057F, CmdName = ''ls'', Pid = 77\<rparr>" ?E]
    by (simp add: ev)
  moreover have "ExternalCmdExit_Error ?E \<lparr>WaitStatus = 0x137F, CmdName = ''ls'', Pid = 77\<rparr>
      = ''ls stopped by signal signal 19 (pid=77)''"
    using ExternalCmdExit_Error_cases [of "\<lparr>WaitStatus = 0x137F, CmdName = ''ls'', Pid = 77\<rparr>" ?E]
    by (simp add: ev)
  moreover have "ExternalCmdExit_Error ?E \<lparr>WaitStatus = 0xFFFF, CmdName = ''ls'', Pid = 77\<rparr>
      = ''ls has unknown WaitStatus 65535''"
    using ExternalCmdExit_Error_cases [of "\<lparr>WaitStatus = 0xFFFF, CmdName = ''ls'', Pid = 77\<rparr>" ?E]
    by (simp add: ev)
  ultimately show ?thesis by simp
qed

subsection \<open>FakeExternalCmdExit\<close>

lemma and_7F: "(w :: 'a::len word) AND 0x7F = take_bit 7 w"
  by (simp add: take_bit_eq_mask mask_eq_exp_minus_1)

lemma and_FF: "(w :: 'a::len word) AND 0xFF = take_bit 8 w"
  by (simp add: take_bit_eq_mask mask_eq_exp_minus_1)

lemma take_bit_8_fake: "take_bit 8 (push_bit 8 (exit :: 64 word) + sig) = take_bit 8 sig"
  apply transfer
  apply (simp add: take_bit_eq_mod push_bit_eq_mult)
  done

lemma take_bit_7_fake: "take_bit 7 (push_bit 8 (exit :: 64 word) + sig) = take_bit 7 sig"
proof -
  have "take_bit 7 (take_bit 8 (push_bit 8 exit + sig)) = take_bit 7 (take_bit 8 sig)"
    by (simp only: take_bit_8_fake)
  then show ?thesis by simp
qed

lemma take_bit_ucast_32: "n \<le> 32 \<Longrightarrow> take_bit n (ucast (w :: 64 word) :: 32 word) = ucast (take_bit n w)"
  by (rule bit_word_eqI) (auto simp: bit_simps)

lemma fake_low7: "WaitStatus (FakeExternalCmdExit name exit sig) AND 0x7F = ucast (sig AND 0x7F)"
  by (simp add: FakeExternalCmdExit_def and_7F take_bit_ucast_32 take_bit_7_fake)

lemma ucast_take_bit_7_inj:
  "(ucast (take_bit 7 (s :: 64 word)) :: 32 word) = ucast (take_bit 7 (t :: 64 word)) \<longleftrightarrow> take_bit 7 s = take_bit 7 t"
proof
  assume eq: "(ucast (take_bit 7 s) :: 32 word) = ucast (take_bit 7 t)"
  show "take_bit 7 s = take_bit 7 t"
  proof (rule bit_word_eqI)
    fix n assume "n < LENGTH(64)"
    from eq have "bit (ucast (take_bit 7 s) :: 32 word) n = bit (ucast (take_bit 7 t) :: 32 word) n"
      by simp
    then show "bit (take_bit 7 s) n = bit (take_bit 7 t) n"
      by (auto simp: bit_simps)
  qed
qed simp

lemma fake_Exited: "Exited (WaitStatus (FakeExternalCmdExit name exit sig)) \<longleftrightarrow> sig AND 0x7F = 0"
proof -
  have "(ucast (take_bit 7 sig) :: 32 word) = 0 \<longleftrightarrow> take_bit 7 sig = 0"
    using ucast_take_bit_7_inj [of sig 0] by simp
  then show ?thesis
    by (simp add: Exited_def ws_mask_def ws_exited_def fake_low7) (simp add: and_7F)
qed

lemma fake_Signaled:
  "Signaled (WaitStatus (FakeExternalCmdExit name exit sig)) \<longleftrightarrow> sig AND 0x7F \<noteq> 0 \<and> sig AND 0x7F \<noteq> 0x7F"
proof -
  have "(ucast (take_bit 7 sig) :: 32 word) = 0 \<longleftrightarrow> take_bit 7 sig = 0"
    using ucast_take_bit_7_inj [of sig 0] by simp
  moreover have "(ucast (take_bit 7 sig) :: 32 word) = 0x7F \<longleftrightarrow> take_bit 7 sig = 0x7F"
    using ucast_take_bit_7_inj [of sig "0x7F"] by simp
  ultimately show ?thesis
    by (simp add: Signaled_def ws_mask_def ws_exited_def ws_stopped_def fake_low7) (auto simp add: and_7F)
qed

lemma fake_Signal:
  "Signaled (WaitStatus (FakeExternalCmdExit name exit sig)) \<Longrightarrow>
   Signal (WaitStatus (FakeExternalCmdExit name exit sig)) = sig AND 0x7F"
  apply (simp add: Signal_def ws_mask_def fake_low7)
  apply (simp add: and_7F)
  apply (rule bit_word_eqI)
  apply (auto simp: bit_simps)
  done

lemma fake_exit_status:
  "Exited (WaitStatus (FakeExternalCmdExit name exit 0)) \<and> ExitStatus (WaitStatus (FakeExternalCmdExit name exit 0)) = exit AND 0xFF"
proof -
  have "(ucast (drop_bit 8 (ucast (push_bit 8 exit) :: 32 word)) :: 64 word) AND 0xFF = exit AND 0xFF"
    unfolding and_FF by (rule bit_word_eqI) (auto simp: bit_simps)
  then show ?thesis
    by (simp add: fake_Exited ExitStatus_def ws_shift_def) (simp add: FakeExternalCmdExit_def)
qed

lemma small_sig: "0 < sig \<Longrightarrow> sig < 0x7F \<Longrightarrow> (sig :: 64 word) AND 0x7F = sig"
proof -
  assume a: "0 < sig" "sig < 0x7F"
  have "sig < 2 ^ 7" using a(2) by (rule less_trans) simp
  then have "sig AND mask 7 = sig" by (rule less_mask_eq)
  then show ?thesis by (simp add: mask_eq_exp_minus_1)
qed

lemma fake_signal:
  "0 < sig \<Longrightarrow> sig < 0x7F \<Longrightarrow> Signaled (WaitStatus (FakeExternalCmdExit name exit sig)) \<and> Signal (WaitStatus (FakeExternalCmdExit name exit sig)) = sig"
proof -
  assume a: "0 < sig" "sig < 0x7F"
  then have s: "sig AND 0x7F = sig" by (rule small_sig)
  from a have sg: "Signaled (WaitStatus (FakeExternalCmdExit name exit sig))"
    by (auto simp: fake_Signaled s)
  with fake_Signal [OF sg] s show ?thesis by simp
qed

lemma Itoa_0: "Itoa 0 = ''0''"
  by (simp add: Itoa_def decimal.simps digit_char_def)

text \<open>
  Claim C3, as stated, says that the value of \<^verbatim>\<open>FakeExternalCmdExit(name, exit, sig)\<close>
  has the success/failure classification and the message that \<^verbatim>\<open>NewExternalCmdExit\<close>
  gives for the same status. It fails at \<open>exit = 0\<close>, \<open>sig = 0\<close>: the status built is 0,
  which \<^verbatim>\<open>NewExternalCmdExit\<close> decodes to nil (success), while
  \<^verbatim>\<open>FakeExternalCmdExit\<close> returns a failure value.
\<close>

theorem FakeExternalCmdExit_zero_exit_counterexample:
  "WaitStatus (FakeExternalCmdExit ''ls'' 0 0) = 0
   \<and> NewExternalCmdExit ''ls'' 0 0 = None
   \<and> NewExternalCmdExit ''ls'' (WaitStatus (FakeExternalCmdExit ''ls'' 0 0)) 0
        \<noteq> Some (FakeExternalCmdExit ''ls'' 0 0)"
  by (simp add: FakeExternalCmdExit_def NewExternalCmdExit_def Exited_def ExitStatus_def
      ws_mask_def ws_exited_def ws_shift_def)

text \<open>
  Claim C3, amended. \<^verbatim>\<open>FakeExternalCmdExit(name, exit, sig)\<close> always returns the failure
  value with the status \<^verbatim>\<open>WaitStatus(exit<<8 + sig)\<close>, the name and pid 0. Whenever that
  status is not a normal exit with code 0, and it is not stopped or the pid given to
  \<^verbatim>\<open>NewExternalCmdExit\<close> is 0, \<^verbatim>\<open>NewExternalCmdExit\<close> on that status returns the
  same value, hence the same message. When the status is a normal exit with code 0,
  \<^verbatim>\<open>NewExternalCmdExit\<close> returns nil and the synthetic value has the message
  "<quoted name> exited with 0". The status carries the exit code and the signal: with
  \<open>sig = 0\<close> it is a normal exit with code \<open>exit AND 0xFF\<close>, and with \<open>0 < sig < 0x7F\<close>
  it is a termination by the signal \<open>sig\<close>.
\<close>

theorem FakeExternalCmdExit_decodes:
  fixes exit sig pid :: go_int
  defines "ws \<equiv> (ucast (push_bit 8 exit + sig) :: WaitStatus)"
  shows "FakeExternalCmdExit name exit sig = \<lparr>WaitStatus = ws, CmdName = name, Pid = 0\<rparr>
    \<and> (\<not> (Exited ws \<and> ExitStatus ws = 0) \<and> (Stopped ws \<longrightarrow> pid = 0) \<longrightarrow>
         NewExternalCmdExit name ws pid = Some (FakeExternalCmdExit name exit sig))
    \<and> (Exited ws \<and> ExitStatus ws = 0 \<longrightarrow>
         NewExternalCmdExit name ws pid = None
         \<and> ExternalCmdExit_Error E (FakeExternalCmdExit name exit sig)
             = Quote E name @ '' exited with 0'')
    \<and> (sig = 0 \<longrightarrow> Exited ws \<and> ExitStatus ws = exit AND 0xFF)
    \<and> (0 < sig \<and> sig < 0x7F \<longrightarrow> Signaled ws \<and> Signal ws = sig)"
proof -
  have w: "WaitStatus (FakeExternalCmdExit name e s) = ucast (push_bit 8 e + s)" for e s
    by (simp add: FakeExternalCmdExit_def)
  have 1: "FakeExternalCmdExit name exit sig = \<lparr>WaitStatus = ws, CmdName = name, Pid = 0\<rparr>"
    by (simp add: FakeExternalCmdExit_def ws_def)
  have 2: "NewExternalCmdExit name ws pid = Some (FakeExternalCmdExit name exit sig)"
    if "\<not> (Exited ws \<and> ExitStatus ws = 0)" "Stopped ws \<longrightarrow> pid = 0"
    using that by (auto simp: NewExternalCmdExit_def 1)
  have 3: "NewExternalCmdExit name ws pid = None
         \<and> ExternalCmdExit_Error E (FakeExternalCmdExit name exit sig)
             = Quote E name @ '' exited with 0''"
    if "Exited ws \<and> ExitStatus ws = 0"
    using that by (simp add: NewExternalCmdExit_def ExternalCmdExit_Error_def 1 Itoa_0)
  have 4: "Exited ws \<and> ExitStatus ws = exit AND 0xFF" if "sig = 0"
    using fake_exit_status [of name exit] that by (simp add: w ws_def)
  have 5: "Signaled ws \<and> Signal ws = sig" if "0 < sig \<and> sig < 0x7F"
    using fake_signal [of sig name exit] that by (simp add: w ws_def)
  from 1 2 3 4 5 show ?thesis by blast
qed

theorem FakeExternalCmdExit_decodes_witness:
  "NewExternalCmdExit ''ls'' 0x0200 0 = Some (FakeExternalCmdExit ''ls'' 2 0)
   \<and> Exited 0x0200 \<and> ExitStatus 0x0200 = 2
   \<and> NewExternalCmdExit ''ls'' 0 0 = None
   \<and> NewExternalCmdExit ''ls'' 9 0 = Some (FakeExternalCmdExit ''ls'' 0 9)
   \<and> Signaled 9 \<and> Signal 9 = 9"
proof -
  note ev = Exited_def Signaled_def Stopped_def ExitStatus_def Signal_def
    ws_mask_def ws_exited_def ws_stopped_def ws_shift_def
  have a: "\<not> (Exited 0x0200 \<and> ExitStatus 0x0200 = 0)" "\<not> Stopped 0x0200"
    "Exited 0 \<and> ExitStatus 0 = 0" "\<not> (Exited 9 \<and> ExitStatus 9 = 0)" "\<not> Stopped 9"
    by (simp_all add: ev)
  have "NewExternalCmdExit ''ls'' 0x0200 0 = Some (FakeExternalCmdExit ''ls'' 2 0)
      \<and> Exited 0x0200 \<and> ExitStatus 0x0200 = 2"
    using FakeExternalCmdExit_decodes [of "''ls''" 2 0 0] a by simp
  moreover have "NewExternalCmdExit ''ls'' 0 0 = None"
    using FakeExternalCmdExit_decodes [of "''ls''" 0 0 0] a by simp
  moreover have "NewExternalCmdExit ''ls'' 9 0 = Some (FakeExternalCmdExit ''ls'' 0 9)
      \<and> Signaled 9 \<and> Signal 9 = 9"
    using FakeExternalCmdExit_decodes [of "''ls''" 0 9 0] a by simp
  ultimately show ?thesis by simp
qed

subsection \<open>allok\<close>

text \<open>
  Claim C4. \<^verbatim>\<open>allok(es)\<close> is true if and only if every element of \<open>es\<close> is a nil pointer
  or an Exception with nil Cause; it is true on the empty slice and false as soon as an
  element is a non-nil Exception with a non-nil Cause, whatever follows it.
\<close>

theorem allok_iff_all_nil_or_nil_cause:
  fixes es pre post :: "'tb Exception option list" and x :: "'tb Exception"
  shows "(allok es \<longleftrightarrow> (\<forall>e \<in> set es. e = None \<or> (\<exists>x. e = Some x \<and> Cause x = None)))
   \<and> allok ([] :: 'tb Exception option list)
   \<and> (Cause x \<noteq> None \<longrightarrow> \<not> allok (pre @ Some x # post))"
proof -
  have iff: "allok es' \<longleftrightarrow> (\<forall>e \<in> set es'. e = None \<or> (\<exists>x. e = Some x \<and> Cause x = None))"
    for es' :: "'tb Exception option list"
    by (induction es') (auto split: option.splits)
  have "\<not> allok (pre @ Some x # post)" if "Cause x \<noteq> None"
    using that by (auto simp: iff)
  with iff [of es] show ?thesis by simp
qed

theorem allok_iff_all_nil_or_nil_cause_witness:
  "allok [OK, OK :: unit Exception option]
   \<and> \<not> allok [OK, Some (Exception (Some (COther ''err'' None None)) []) :: unit Exception option]"
proof -
  have "allok [OK, OK :: unit Exception option]"
    using allok_iff_all_nil_or_nil_cause [of "[OK, OK :: unit Exception option]"]
    by (simp add: OK_def)
  moreover have "\<not> allok [OK, Some (Exception (Some (COther ''err'' None None)) []) :: unit Exception option]"
    using allok_iff_all_nil_or_nil_cause
      [of _ "Exception (Some (COther ''err'' None None)) [] :: unit Exception" "[OK]" "[]"]
    by simp
  ultimately show ?thesis by simp
qed

subsection \<open>Flow.Error and Flow.Repr\<close>

text \<open>
  Claim C8. \<^verbatim>\<open>Flow.Error()\<close> returns "return", "break" and "continue" for the three
  named constants, and \<^verbatim>\<open>Flow.Repr()\<close> returns "?(return)", "?(break)" and
  "?(continue)". For a tag outside the three the claim promises a string containing
  "BAD FLOW"; the code does not return one: at the tag 3 the call of \<^verbatim>\<open>Error\<close> reaches
  \<^verbatim>\<open>fmt.Sprintf\<close> with the verb \<^verbatim>\<open>%v\<close>, which calls \<^verbatim>\<open>Error\<close> on the same tag
  again, and the recursion never returns.
\<close>

theorem Flow_Error_named_and_bad_flow:
  "Flow_Error Return = Some ''return''
   \<and> Flow_Error Break = Some ''break''
   \<and> Flow_Error Continue = Some ''continue''
   \<and> Flow_Repr Return indent = Some ''?(return)''
   \<and> Flow_Repr Break indent = Some ''?(break)''
   \<and> Flow_Repr Continue indent = Some ''?(continue)''
   \<and> Flow_Error 3 = None
   \<and> Flow_Repr 3 indent = None"
  by (simp add: Flow_Error_eq Flow_Repr_def Return_def Break_def Continue_def flowNames_def)

subsection \<open>PipelineError.Error\<close>

lemma andThen_simps [simp]:
  "andThen (Inl c) k = Inl c" "andThen (Inr v) k = k v"
  by (simp_all add: andThen_def)

lemma join_Cons: "join sep (s # ss) = s @ (if ss = [] then [] else sep @ join sep ss)"
  by (cases ss) simp_all

lemma PipelineError_Error_loop_step:
  "PipelineError_Error_loop E i b (e # es)
     = andThen (slot_message E e)
         (\<lambda>s. PipelineError_Error_loop E (i + 1) ((if i > 0 then b @ '' | '' else b) @ s) es)"
  by (cases e) (simp_all add: Let_def)

lemma PipelineError_Error_loop_eq:
  "PipelineError_Error_loop E i b es
     = andThen (collect (map (slot_message E) es))
         (\<lambda>ms. Inr (b @ (if ms = [] then [] else (if i > 0 then '' | '' else []) @ join '' | '' ms)))"
proof (induction es arbitrary: i b)
  case Nil
  show ?case by simp
next
  case (Cons e es)
  show ?case
  proof (cases "slot_message E e")
    case (Inl c)
    then show ?thesis by (simp add: PipelineError_Error_loop_step del: PipelineError_Error_loop.simps slot_message.simps)
  next
    case (Inr s)
    show ?thesis
    proof (cases "collect (map (slot_message E) es)")
      case (Inl c)
      with Inr show ?thesis
        by (simp add: PipelineError_Error_loop_step Cons.IH del: PipelineError_Error_loop.simps slot_message.simps)
    next
      case ms: (Inr ms)
      with Inr show ?thesis
        by (simp add: PipelineError_Error_loop_step Cons.IH join_Cons del: PipelineError_Error_loop.simps slot_message.simps)
    qed
  qed
qed

text \<open>
  Claim C5. For every \<^verbatim>\<open>PipelineError\<close>, \<^verbatim>\<open>Error()\<close> renders the stage results in
  index order as a parenthesized list separated by " | ": a slot that is nil or has a nil
  cause renders as "<nil>", every other slot as that stage's own \<^verbatim>\<open>Error()\<close> message
  (and where a stage's own \<^verbatim>\<open>Error()\<close> does not return, neither does the rendering).
  The stage results [nil, errA, nil] render as "(<nil> | errA-message | <nil>)".
\<close>

theorem PipelineError_Error_renders_slots:
  fixes es :: "'tb Exception option list" and c :: "'tb cause"
  shows "PipelineError_Error E es
     = andThen (collect (map (slot_message E) es))
         (\<lambda>ms. Inr (''('' @ join '' | '' ms @ '')''))
   \<and> (cause_Error E c = Inr m \<longrightarrow>
        PipelineError_Error E [None, Some (Exception (Some c) tb), None]
          = Inr (''(<nil> | '' @ m @ '' | <nil>)''))"
proof -
  have 1: "PipelineError_Error E es'
     = andThen (collect (map (slot_message E) es'))
         (\<lambda>ms. Inr (''('' @ join '' | '' ms @ '')''))" for es' :: "'tb Exception option list"
  proof (cases "collect (map (slot_message E) es')")
    case (Inl c)
    then show ?thesis by (simp add: PipelineError_Error_loop_eq)
  next
    case (Inr ms)
    then show ?thesis by (cases ms) (simp_all add: PipelineError_Error_loop_eq)
  qed
  have 2: "PipelineError_Error E [None, Some (Exception (Some c) tb), None]
          = Inr (''(<nil> | '' @ m @ '' | <nil>)'')" if "cause_Error E c = Inr m"
    unfolding 1 using that by simp
  from 1 [of es] 2 show ?thesis by blast
qed

theorem PipelineError_Error_renders_slots_witness:
  "PipelineError_Error \<lparr>Quote = (\<lambda>s. s), Signal_String = (\<lambda>n. ''signal '' @ Itoa n),
        Alloc_Limit = 2 ^ 30\<rparr>
     [None, Some (Exception (Some (COther ''errA'' None None)) []), None :: unit Exception option]
     = Inr ''(<nil> | errA | <nil>)''
   \<and> PipelineError_Error \<lparr>Quote = (\<lambda>s. s), Signal_String = (\<lambda>n. ''signal '' @ Itoa n),
        Alloc_Limit = 2 ^ 30\<rparr>
     [Some (Exception (Some (CFlow Break)) []), OK :: unit Exception option]
     = Inr ''(break | <nil>)''"
proof -
  let ?E = "\<lparr>Quote = (\<lambda>s. s), Signal_String = (\<lambda>n. ''signal '' @ Itoa n),
        Alloc_Limit = 2 ^ 30\<rparr>"
  have "cause_Error ?E (COther ''errA'' None None :: unit cause) = Inr ''errA''"
    by simp
  then have "PipelineError_Error ?E
     [None, Some (Exception (Some (COther ''errA'' None None)) []), None :: unit Exception option]
     = Inr ''(<nil> | errA | <nil>)''"
    using PipelineError_Error_renders_slots
      [of ?E "[]" "COther ''errA'' None None :: unit cause" "''errA''" "[]"]
    by simp
  moreover have "PipelineError_Error ?E
     [Some (Exception (Some (CFlow Break)) []), OK :: unit Exception option]
     = Inr ''(break | <nil>)''"
    using PipelineError_Error_renders_slots
      [of ?E "[Some (Exception (Some (CFlow Break)) []), OK :: unit Exception option]"]
    by (simp add: OK_def Flow_Error_eq Break_def flowNames_def returning_def
        del: PipelineError_Error.simps)
  ultimately show ?thesis by simp
qed

subsection \<open>Exception.Repr\<close>

text \<open>
  Claim C6. For every Exception, \<^verbatim>\<open>Repr\<close> returns "$ok" when the cause is nil (the
  zero-value Exception and the OK sentinel included); when the cause is non-nil and has
  a \<^verbatim>\<open>Repr\<close> method, \<^verbatim>\<open>Repr\<close> is what the cause's own \<^verbatim>\<open>Repr\<close> gives (for a
  \<^verbatim>\<open>Flow\<close>, a \<^verbatim>\<open>PipelineError\<close> and any other error with that method); otherwise it
  returns "?(error " followed by the quoted \<^verbatim>\<open>Error()\<close> message of the cause and ")".
\<close>

theorem Exception_Repr_cases:
  fixes c :: "'tb cause" and es :: "'tb Exception option list"
  shows "Exception_Repr E (Some (Exception None tb)) indent = Inr ''$ok''
   \<and> Exception_Repr E (Some (Exception None [])) indent = Inr ''$ok''
   \<and> Exception_Repr E (OK :: 'tb Exception option) indent = Inr ''$ok''
   \<and> (cause_Repr E c indent = Some r \<longrightarrow>
        Exception_Repr E (Some (Exception (Some c) tb)) indent = r)
   \<and> (cause_Repr E c indent = None \<longrightarrow>
        (\<exists>m. cause_Error E c = Inr m
           \<and> Exception_Repr E (Some (Exception (Some c) tb)) indent
               = Inr (''?(error '' @ Quote E m @ '')'')))
   \<and> cause_Repr E (CFlow f :: 'tb cause) indent = Some (returning (Flow_Repr f indent))
   \<and> cause_Repr E (CPipelineError es) indent = Some (PipelineError_Repr E es indent)
   \<and> cause_Repr E (COther msg (Some repr) p :: 'tb cause) indent = Some (Inr (repr indent))
   \<and> cause_Repr E (CExit x :: 'tb cause) indent = None
   \<and> cause_Repr E (COther msg None p :: 'tb cause) indent = None"
proof -
  have fallback: "\<exists>m. cause_Error E c = Inr m
           \<and> Exception_Repr E (Some (Exception (Some c) tb)) indent
               = Inr (''?(error '' @ Quote E m @ '')'')"
    if "cause_Repr E c indent = None"
    using that by (cases c) (simp_all del: PipelineError_Repr.simps split: option.splits)
  then show ?thesis
    by (simp add: OK_def del: PipelineError_Repr.simps)
qed

theorem Exception_Repr_cases_witness:
  "Exception_Repr \<lparr>Quote = (\<lambda>s. s), Signal_String = (\<lambda>n. ''signal '' @ Itoa n),
        Alloc_Limit = 2 ^ 30\<rparr>
     (Some (Exception (Some (CFlow Return)) []) :: unit Exception option) 0 = Inr ''?(return)''
   \<and> Exception_Repr \<lparr>Quote = (\<lambda>s. s), Signal_String = (\<lambda>n. ''signal '' @ Itoa n),
        Alloc_Limit = 2 ^ 30\<rparr>
     (Some (Exception (Some (COther ''boom'' None None)) []) :: unit Exception option) 0
       = Inr ''?(error boom)''"
proof -
  let ?E = "\<lparr>Quote = (\<lambda>s. s), Signal_String = (\<lambda>n. ''signal '' @ Itoa n),
        Alloc_Limit = 2 ^ 30\<rparr>"
  have r: "cause_Repr ?E (CFlow Return :: unit cause) 0 = Some (Inr ''?(return)'')"
    by (simp add: Flow_Repr_def Flow_Error_eq Return_def flowNames_def returning_def)
  have n: "cause_Repr ?E (COther ''boom'' None None :: unit cause) 0 = None"
    by simp
  have "Exception_Repr ?E (Some (Exception (Some (CFlow Return)) []) :: unit Exception option) 0
      = Inr ''?(return)''"
    using Exception_Repr_cases [of ?E "[]" 0 "CFlow Return :: unit cause" "Inr ''?(return)''"] r
    by blast
  moreover have "Exception_Repr ?E
      (Some (Exception (Some (COther ''boom'' None None)) []) :: unit Exception option) 0
      = Inr ''?(error boom)''"
    using Exception_Repr_cases [of ?E "[]" 0 "COther ''boom'' None None :: unit cause"] n
    by auto
  ultimately show ?thesis by simp
qed

subsection \<open>Exception.Error and Exception.Pprint on a success value\<close>

text \<open>
  Claim C9. \<^verbatim>\<open>Error()\<close> and \<^verbatim>\<open>Pprint()\<close> on an Exception whose cause is nil, the
  shared OK sentinel included, panic on the nil cause; \<^verbatim>\<open>Bool()\<close> and \<^verbatim>\<open>Repr()\<close>
  return on it. Whenever \<^verbatim>\<open>Error()\<close> or \<^verbatim>\<open>Pprint()\<close> returns, the receiver is non-nil
  and its cause is non-nil.
\<close>

theorem Exception_Error_Pprint_need_cause:
  fixes exc exc' :: "'tb Exception option" and tb :: "'tb list"
  shows "Exception_Error E (Some (Exception None tb)) = Inl NilDereference
   \<and> Exception_Error E (OK :: 'tb Exception option) = Inl NilDereference
   \<and> Exception_Pprint E P (Some (Exception None tb)) = Inl NilDereference
   \<and> Exception_Pprint E P (OK :: 'tb Exception option) = Inl NilDereference
   \<and> Exception_Bool (OK :: 'tb Exception option) = Inr True
   \<and> Exception_Repr E (OK :: 'tb Exception option) indent = Inr ''$ok''
   \<and> (Exception_Error E exc = Inr s \<longrightarrow> (\<exists>x c. exc = Some x \<and> Cause x = Some c))
   \<and> (Exception_Pprint E P exc' = Inr s' \<longrightarrow> (\<exists>x c. exc' = Some x \<and> Cause x = Some c))"
proof -
  have e: "\<exists>x c. exc = Some x \<and> Cause x = Some c" if "Exception_Error E exc = Inr s"
    using that by (cases "(E, exc)" rule: Exception_Error.cases) auto
  have p: "\<exists>x c. exc' = Some x \<and> Cause x = Some c" if "Exception_Pprint E P exc' = Inr s'"
    using that
    by (auto simp: Exception_Pprint_def cause_Pprint_def andThen_def
        split: option.splits sum.splits)
  have n: "Exception_Pprint E P (Some (Exception None tb')) = Inl NilDereference"
    for tb' :: "'tb list"
    by (simp add: Exception_Pprint_def cause_Pprint_def)
  from e p n show ?thesis
    by (simp add: OK_def Exception_Bool_def)
qed

theorem Exception_Error_Pprint_need_cause_witness:
  "Exception_Error \<lparr>Quote = (\<lambda>s. s), Signal_String = (\<lambda>n. ''signal '' @ Itoa n),
        Alloc_Limit = 2 ^ 30\<rparr>
     (Some (Exception (Some (COther ''boom'' None None)) [()])) = Inr ''boom''
   \<and> Exception_Pprint \<lparr>Quote = (\<lambda>s. s), Signal_String = (\<lambda>n. ''signal '' @ Itoa n),
        Alloc_Limit = 2 ^ 30\<rparr>
       (\<lambda>frame indent. indent @ ''f'')
       (Some (Exception (Some (COther ''boom'' None None)) [()]))
     = Inr (''Exception: '' @ [CHR 0x1B] @ ''[31;1mboom'' @ [CHR 0x1B] @ ''[m'' @ [CHR 0x0A]
            @ ''Traceback:'' @ [CHR 0x0A] @ ''      f'')
   \<and> (\<exists>x c. Some (Exception (Some (COther ''boom'' None None)) [()]) = Some x
          \<and> Cause x = Some (c :: unit cause))"
proof -
  let ?E = "\<lparr>Quote = (\<lambda>s. s), Signal_String = (\<lambda>n. ''signal '' @ Itoa n),
        Alloc_Limit = 2 ^ 30\<rparr>"
  let ?x = "Some (Exception (Some (COther ''boom'' None None)) [()]) :: unit Exception option"
  have a: "Exception_Error ?E ?x = Inr ''boom''"
    by simp
  have b: "Exception_Pprint ?E (\<lambda>frame indent. indent @ ''f'') ?x
     = Inr (''Exception: '' @ [CHR 0x1B] @ ''[31;1mboom'' @ [CHR 0x1B] @ ''[m'' @ [CHR 0x0A]
            @ ''Traceback:'' @ [CHR 0x0A] @ ''      f'')"
    by (simp add: Exception_Pprint_def cause_Pprint_def)
  from a b Exception_Error_Pprint_need_cause
      [of ?E "[]" "\<lambda>frame indent. indent @ ''f''" 0 ?x "''boom''" ?x]
  show ?thesis by blast
qed

subsection \<open>PipelineError.Repr on a nil slot\<close>







end
